theory Spec2Isabelle
  imports Main "HOL-Library.Word" "HOL-Library.Finite_Map"
begin

section \<open>The in-memory cache of \<^verbatim>\<open>memcache/cache.go\<close>\<close>

text \<open>
  The embedding follows \<^verbatim>\<open>src/memcache/cache.go\<close> function by function.

  \<^item> \<^verbatim>\<open>time.Duration\<close> and the result of \<^verbatim>\<open>UnixNano()\<close> are Go \<^verbatim>\<open>int64\<close>: 64-bit
    words, compared through \<open>sint\<close> (Go's signed comparison), added with the wrapping \<open>+\<close>.
  \<^item> Every \<^verbatim>\<open>time.Now()\<close> of the source is an explicit argument: the reading of the wall
    clock in Unix nanoseconds at that call. \<^verbatim>\<open>time.Now().Add(d).UnixNano()\<close> is the reading
    plus \<open>d\<close> in \<^verbatim>\<open>int64\<close> arithmetic. The \<^verbatim>\<open>time.Time\<close> kept in \<^verbatim>\<open>CreatedAt\<close>, which
    no method reads, is held as its Unix nanoseconds.
  \<^item> \<^verbatim>\<open>interface{}\<close> is \<open>'a option\<close>, \<open>None\<close> being Go's \<^verbatim>\<open>nil\<close>; Go's \<^verbatim>\<open>error\<close> is
    \<open>error option\<close>, \<open>None\<close> being the \<^verbatim>\<open>nil\<close> error. A Go function returning
    \<^verbatim>\<open>(value, err)\<close> returns the pair.
  \<^item> \<^verbatim>\<open>map[string]Value\<close> is a finite map; the capacity hint of \<^verbatim>\<open>make\<close> has no effect
    on the contents and is not represented.
  \<^item> Every method has the pointer receiver \<^verbatim>\<open>c *Cache\<close>: it takes the cache and returns it
    (updated or not) next to its results. The methods run one at a time; the mutex, which
    each method releases before it returns, is not part of the state.
\<close>

subsection \<open>Data\<close>

type_synonym int64 = "64 word"
type_synonym Duration = "64 word"
type_synonym 'a iface = "'a option"

datatype error = ErrKeyNotFound | ErrCacheIsOut

record 'a Value =
  Value :: "'a iface"
  CreatedAt :: int64
  Expiration :: int64

record 'a Cache =
  defaultExpiration :: Duration
  cleanupInterval :: Duration
  m :: "(string, 'a Value) fmap"

text \<open>Go's builtin \<^verbatim>\<open>len\<close> on a map: the number of entries.\<close>

definition len :: "('k, 'v) fmap \<Rightarrow> nat" where
  "len mp = fcard (fmdom mp)"

subsection \<open>Construction\<close>

text \<open>
  \<^verbatim>\<open>NewCache\<close> (lines 35-51). The package variable \<^verbatim>\<open>defaultSize\<close> only feeds the capacity
  hint of \<^verbatim>\<open>FlushAll\<close>; the goroutine started when \<^verbatim>\<open>cleanupInterval > 0\<close> is the sweep
  modelled below by \<open>GC\<close>.
\<close>

definition NewCache :: "int \<Rightarrow> Duration \<Rightarrow> Duration \<Rightarrow> 'a Cache" where
  "NewCache sz expiration cleanup =
     \<lparr>defaultExpiration = expiration, cleanupInterval = cleanup, m = fmempty\<rparr>"

subsection \<open>Operations\<close>

text \<open>
  \<^verbatim>\<open>Set\<close> (lines 58-78) reads the clock twice: \<open>now\<close> for the expiration (line 67) and
  \<open>now'\<close> for \<^verbatim>\<open>CreatedAt\<close> (line 76). \<^verbatim>\<open>var expiration int64\<close> starts at zero.
\<close>

definition Set :: "'a Cache \<Rightarrow> string \<Rightarrow> 'a iface \<Rightarrow> Duration \<Rightarrow> int64 \<Rightarrow> int64 \<Rightarrow> 'a Cache" where
  "Set c key val duration now now' =
     (let duration = (if duration = 0 then defaultExpiration c else duration);
          expiration = (if 0 < sint duration then now + duration else 0)
      in c\<lparr>m := fmupd key \<lparr>Value = val, CreatedAt = now', Expiration = expiration\<rparr> (m c)\<rparr>)"

text \<open>\<^verbatim>\<open>Get\<close> (lines 81-98).\<close>

definition Get :: "'a Cache \<Rightarrow> string \<Rightarrow> int64 \<Rightarrow> ('a iface \<times> error option) \<times> 'a Cache" where
  "Get c key now =
     (case fmlookup (m c) key of
        None \<Rightarrow> ((None, Some ErrKeyNotFound), c)
      | Some val \<Rightarrow>
          if 0 < sint (Expiration val) then
            if sint (Expiration val) < sint now then ((None, Some ErrCacheIsOut), c)
            else ((Value val, None), c)
          else ((Value val, None), c))"

text \<open>
  \<^verbatim>\<open>GetMulti\<close> (lines 102-111). Each key comes with the clock reading of its \<^verbatim>\<open>Get\<close>;
  \<^verbatim>\<open>v, _ := c.Get(key)\<close> drops the error.
\<close>

fun GetMulti_loop ::
  "'a Cache \<Rightarrow> (string \<times> int64) list \<Rightarrow> 'a iface list \<Rightarrow> 'a iface list \<times> 'a Cache" where
  "GetMulti_loop c [] rc = (rc, c)"
| "GetMulti_loop c ((key, now) # keys) rc =
     (case Get c key now of ((v, _), c') \<Rightarrow> GetMulti_loop c' keys (rc @ [v]))"

definition GetMulti :: "'a Cache \<Rightarrow> (string \<times> int64) list \<Rightarrow> 'a iface list \<times> 'a Cache" where
  "GetMulti c keys = GetMulti_loop c keys []"

text \<open>\<^verbatim>\<open>Delete\<close> (lines 114-127).\<close>

definition Delete :: "'a Cache \<Rightarrow> string \<Rightarrow> error option \<times> 'a Cache" where
  "Delete c key =
     (case fmlookup (m c) key of
        None \<Rightarrow> (Some ErrKeyNotFound, c)
      | Some _ \<Rightarrow> (None, c\<lparr>m := fmdrop key (m c)\<rparr>))"

text \<open>\<^verbatim>\<open>IsExist\<close> (lines 130-139).\<close>

definition IsExist :: "'a Cache \<Rightarrow> string \<Rightarrow> bool \<times> 'a Cache" where
  "IsExist c key = (case fmlookup (m c) key of None \<Rightarrow> (False, c) | Some _ \<Rightarrow> (True, c))"

text \<open>\<^verbatim>\<open>Expire\<close> (lines 143-159).\<close>

definition Expire :: "'a Cache \<Rightarrow> string \<Rightarrow> int64 \<Rightarrow> (bool \<times> error option) \<times> 'a Cache" where
  "Expire c key now =
     (case fmlookup (m c) key of
        None \<Rightarrow> ((False, Some ErrKeyNotFound), c)
      | Some val \<Rightarrow>
          if sint (Expiration val) < sint now \<and> 0 < sint (Expiration val)
          then ((True, None), c)
          else ((False, None), c))"

text \<open>\<^verbatim>\<open>FlushAll\<close> (lines 162-167).\<close>

definition FlushAll :: "'a Cache \<Rightarrow> 'a Cache" where
  "FlushAll c = c\<lparr>m := fmempty\<rparr>"

subsection \<open>The sweep\<close>

text \<open>
  \<^verbatim>\<open>expiredKeys\<close> (lines 184-197). \<^verbatim>\<open>range c.m\<close> visits the entries in an order the
  runtime chooses, and the loop reads the clock once per entry: the argument \<open>scan\<close>
  lists the keys in the order of the visit, each with the clock reading taken there.
  A proper scan visits every key of the map exactly once, as \<^verbatim>\<open>range\<close> does under the
  read lock; only a scan that is not proper names a key that the map does not hold, and
  the loop passes over it.
\<close>

fun expiredKeys_loop ::
  "'a Cache \<Rightarrow> (string \<times> int64) list \<Rightarrow> string list \<Rightarrow> string list" where
  "expiredKeys_loop c [] keys = keys"
| "expiredKeys_loop c ((k, now) # scan) keys =
     (case fmlookup (m c) k of
        None \<Rightarrow> expiredKeys_loop c scan keys
      | Some i \<Rightarrow>
          if sint (Expiration i) < sint now \<and> 0 < sint (Expiration i)
          then expiredKeys_loop c scan (keys @ [k])
          else expiredKeys_loop c scan keys)"

definition expiredKeys :: "'a Cache \<Rightarrow> (string \<times> int64) list \<Rightarrow> string list \<times> 'a Cache" where
  "expiredKeys c scan = (expiredKeys_loop c scan [], c)"

definition proper_scan :: "'a Cache \<Rightarrow> (string \<times> int64) list \<Rightarrow> bool" where
  "proper_scan c scan \<longleftrightarrow> distinct (map fst scan) \<and> fset_of_list (map fst scan) = fmdom (m c)"

text \<open>\<^verbatim>\<open>clearItems\<close> (lines 200-209).\<close>

fun clearItems :: "'a Cache \<Rightarrow> string list \<Rightarrow> 'a Cache" where
  "clearItems c [] = c"
| "clearItems c (k # keys) = clearItems (c\<lparr>m := fmdrop k (m c)\<rparr>) keys"

text \<open>
  \<^verbatim>\<open>GC\<close> (lines 169-181). \<open>GC_body\<close> is one pass of the loop body after the timer has
  fired; \<open>Stopped\<close> is the \<^verbatim>\<open>return\<close> that ends the goroutine, \<open>Running\<close> the next turn of
  the \<^verbatim>\<open>for\<close>.
\<close>

datatype sweeper = Running | Stopped

definition GC_body :: "'a Cache \<Rightarrow> (string \<times> int64) list \<Rightarrow> sweeper \<times> 'a Cache" where
  "GC_body c scan =
     (if len (m c) = 0 then (Stopped, c)
      else case expiredKeys c scan of (keys, c') \<Rightarrow>
        if length keys \<noteq> 0 then (Running, clearItems c' keys) else (Running, c'))"

text \<open>
  The \<^verbatim>\<open>for\<close> loop of \<^verbatim>\<open>GC\<close> against the rest of the program: a schedule is a list of
  events, each a firing of the sweep's timer (with the scan that pass would make) or a
  call of a mutating method by the program (the reading methods return the cache they
  were given and are left out). A call acts on the cache whatever the sweep is doing.
  After \<^verbatim>\<open>return\<close> no goroutine is left to receive the timer: a firing is passed over.
\<close>

datatype 'a event =
    Tick "(string \<times> int64) list"
  | CallSet string "'a iface" Duration int64 int64
  | CallDelete string
  | CallFlushAll

fun call :: "'a event \<Rightarrow> 'a Cache \<Rightarrow> 'a Cache" where
  "call (Tick scan) c = c"
| "call (CallSet key val duration now now') c = Set c key val duration now now'"
| "call (CallDelete key) c = snd (Delete c key)"
| "call CallFlushAll c = FlushAll c"

fun is_Tick :: "'a event \<Rightarrow> bool" where
  "is_Tick (Tick scan) = True"
| "is_Tick e = False"

fun GC_loop :: "sweeper \<times> 'a Cache \<Rightarrow> 'a event list \<Rightarrow> sweeper \<times> 'a Cache" where
  "GC_loop sc [] = sc"
| "GC_loop (Running, c) (Tick scan # es) = GC_loop (GC_body c scan) es"
| "GC_loop (Stopped, c) (Tick scan # es) = GC_loop (Stopped, c) es"
| "GC_loop (s, c) (e # es) = GC_loop (s, call e c) es"

definition GC :: "'a Cache \<Rightarrow> 'a event list \<Rightarrow> sweeper \<times> 'a Cache" where
  "GC c es = GC_loop (Running, c) es"

subsection \<open>The specification's notions\<close>

text \<open>
  An entry is expired at a clock reading when its \<open>Expiration\<close> is strictly positive and
  the reading is strictly past it.
\<close>

definition expired :: "'a Value \<Rightarrow> int64 \<Rightarrow> bool" where
  "expired e now \<longleftrightarrow> 0 < sint (Expiration e) \<and> sint (Expiration e) < sint now"

text \<open>The payload of a key that is present and fresh at the reading, nil otherwise.\<close>

definition fresh_payload :: "'a Cache \<Rightarrow> string \<Rightarrow> int64 \<Rightarrow> 'a iface" where
  "fresh_payload c key now =
     (case fmlookup (m c) key of
        None \<Rightarrow> None
      | Some e \<Rightarrow> if expired e now then None else Value e)"

text \<open>The key holds an entry that is expired at the reading the scan took for it.\<close>

definition expired_at_scan :: "'a Cache \<Rightarrow> (string \<times> int64) list \<Rightarrow> string \<Rightarrow> bool" where
  "expired_at_scan c scan k =
     (case fmlookup (m c) k of
        None \<Rightarrow> False
      | Some e \<Rightarrow> (case map_of scan k of None \<Rightarrow> False | Some now \<Rightarrow> expired e now))"

section \<open>Auxiliary facts\<close>

text \<open>\<^verbatim>\<open>len(c.m) == 0\<close> holds of the empty map and of no other.\<close>

lemma len_eq_0_iff: "len mp = 0 \<longleftrightarrow> mp = fmempty"
  unfolding len_def
  by (metis fcard_fempty fmdom_empty fmrestrict_fset_dom fmrestrict_fset_null fcard_0_eq)

lemma len_fmupd_present: "key |\<in>| fmdom mp \<Longrightarrow> len (fmupd key e mp) = len mp"
  by (simp add: len_def finsert_absorb)

lemma len_fmupd_absent: "key |\<notin>| fmdom mp \<Longrightarrow> len (fmupd key e mp) = Suc (len mp)"
  by (simp add: len_def fcard_finsert_disjoint)

text \<open>The wrapped sum of two \<^verbatim>\<open>int64\<close> is the sum of the integers when that fits.\<close>

lemma sint_add_exact:
  fixes a b :: int64
  assumes "- (2 ^ 63) \<le> sint a + sint b" and "sint a + sint b < 2 ^ 63"
  shows "sint (a + b) = sint a + sint b"
  using assms by (simp add: sint_word_add signed_take_bit_int_eq_self)

text \<open>When the integers add up to \<open>2 ^ 63\<close> or more, the \<^verbatim>\<open>int64\<close> sum is \<open>2 ^ 64\<close> less.\<close>

lemma sint_add_wrapped:
  fixes a b :: int64
  assumes "2 ^ 63 \<le> sint a + sint b"
  shows "sint (a + b) = sint a + sint b - 2 ^ 64"
proof -
  let ?x = "sint a + sint b"
  have a: "sint a < 2 ^ 63"
    using sint_lt [of a] by simp
  have b: "sint b < 2 ^ 63"
    using sint_lt [of b] by simp
  have lo: "0 \<le> ?x + 2 ^ 63 - 2 ^ 64"
    using assms by simp
  have hi: "?x + 2 ^ 63 - 2 ^ 64 < 2 ^ 64"
    using a b by simp
  have gen: "(y - n) mod n = y mod n" for y n :: int
    by simp
  have "take_bit 64 (?x + 2 ^ 63) = take_bit 64 (?x + 2 ^ 63 - 2 ^ 64)"
    using gen [of "?x + 2 ^ 63" "2 ^ 64"] by (simp add: take_bit_eq_mod)
  also have "\<dots> = ?x + 2 ^ 63 - 2 ^ 64"
    using lo hi by (simp add: take_bit_int_eq_self)
  finally have "signed_take_bit 63 ?x = ?x - 2 ^ 64"
    by (simp add: signed_take_bit_eq_take_bit_shift)
  then show ?thesis
    by (simp add: sint_word_add)
qed

lemma Get_frame: "snd (Get c key now) = c"
  by (simp add: Get_def split: option.splits)

lemma Get_fresh_payload: "fst (fst (Get c key now)) = fresh_payload c key now"
  by (simp add: Get_def fresh_payload_def expired_def split: option.splits)

text \<open>The loop of \<open>GetMulti\<close> appends one result per key and hands the cache on unchanged.\<close>

lemma GetMulti_loop_eq:
  "GetMulti_loop c keys rc = (rc @ map (\<lambda>(key, now). fresh_payload c key now) keys, c)"
proof (induction c keys rc rule: GetMulti_loop.induct)
  case (1 c rc)
  show ?case by simp
next
  case (2 c key now keys rc)
  obtain v err c' where g: "Get c key now = ((v, err), c')"
    by (metis prod.exhaust)
  have "c' = c"
    using Get_frame [of c key now] g by simp
  moreover have "v = fresh_payload c key now"
    using Get_fresh_payload [of c key now] g by simp
  ultimately show ?case
    using 2 g by simp
qed

text \<open>What the scan collects, whatever the order of the visit.\<close>

lemma set_expiredKeys_loop:
  "set (expiredKeys_loop c scan keys) =
     set keys \<union> {k. \<exists>now e. (k, now) \<in> set scan \<and> fmlookup (m c) k = Some e \<and> expired e now}"
  by (induction c scan keys rule: expiredKeys_loop.induct)
     (auto simp: expired_def split: option.splits)

lemma clearItems_eq: "clearItems c keys = c\<lparr>m := fmdrop_set (set keys) (m c)\<rparr>"
  by (induction keys arbitrary: c) simp_all

lemma expired_at_scan_iff:
  "distinct (map fst scan) \<Longrightarrow>
     expired_at_scan c scan k \<longleftrightarrow>
       (\<exists>now e. (k, now) \<in> set scan \<and> fmlookup (m c) k = Some e \<and> expired e now)"
  by (auto simp: expired_at_scan_def split: option.splits dest: eq_key_imp_eq_value)

lemma GC_body_nonempty:
  assumes "len (m c) \<noteq> 0" and "distinct (map fst scan)"
  shows "GC_body c scan = (Running, c\<lparr>m := fmfilter (\<lambda>k. \<not> expired_at_scan c scan k) (m c)\<rparr>)"
proof -
  let ?keys = "expiredKeys_loop c scan []"
  have keys: "set ?keys = {k. expired_at_scan c scan k}"
    using assms(2) by (simp add: set_expiredKeys_loop expired_at_scan_iff)
  have drop: "fmdrop_set (set ?keys) (m c) = fmfilter (\<lambda>k. \<not> expired_at_scan c scan k) (m c)"
    by (rule fmap_ext) (simp add: keys)
  show ?thesis
  proof (cases "?keys = []")
    case True
    then have "fmfilter (\<lambda>k. \<not> expired_at_scan c scan k) (m c) = m c"
      using drop by simp
    then show ?thesis
      using assms(1) True by (simp add: GC_body_def expiredKeys_def)
  next
    case False
    then show ?thesis
      using assms(1) drop by (simp add: GC_body_def expiredKeys_def clearItems_eq)
  qed
qed

text \<open>Whatever the scan, a pass removes only keys that the scan collected.\<close>

lemma GC_body_keeps:
  assumes "fmlookup (m c) key = Some e" and "key \<notin> set (expiredKeys_loop c scan [])"
  shows "fmlookup (m (snd (GC_body c scan))) key = Some e"
  using assms by (simp add: GC_body_def expiredKeys_def clearItems_eq)

text \<open>Once the goroutine has returned, only the program's calls change the cache.\<close>

lemma GC_loop_Stopped:
  "GC_loop (Stopped, c) es = (Stopped, fold call (filter (\<lambda>e. \<not> is_Tick e) es) c)"
proof (induction es arbitrary: c)
  case Nil
  show ?case by simp
next
  case (Cons e es)
  then show ?case by (cases e) simp_all
qed

section \<open>Get\<close>

text \<open>
  C1. \<open>Get\<close> on an absent key returns \<open>ErrKeyNotFound\<close>. On a key whose entry has
  \<open>Expiration > 0\<close> and the clock past it, \<open>Get\<close> returns \<open>ErrCacheIsOut\<close>, returns the
  cache as it was, and \<open>IsExist\<close> on the returned cache still answers true. On a present
  entry that is not expired, \<open>Get\<close> returns the stored payload and the nil error.
\<close>

theorem C1_Get_contract:
  "(fmlookup (m c) key = None \<longrightarrow> fst (Get c key now) = (None, Some ErrKeyNotFound))
   \<and> (fmlookup (m c) key = Some val \<and> 0 < sint (Expiration val) \<and> sint (Expiration val) < sint now
        \<longrightarrow> fst (Get c key now) = (None, Some ErrCacheIsOut)
          \<and> snd (Get c key now) = c
          \<and> fmlookup (m (snd (Get c key now))) key = Some val
          \<and> fst (IsExist (snd (Get c key now)) key) = True)
   \<and> (fmlookup (m c) key = Some val \<and> \<not> (0 < sint (Expiration val) \<and> sint (Expiration val) < sint now)
        \<longrightarrow> fst (Get c key now) = (Value val, None))"
  by (simp add: Get_def IsExist_def)

theorem C1_Get_contract_witness:
  "fst (Get (NewCache 16 0 0 :: nat Cache) ''k'' 5) = (None, Some ErrKeyNotFound)
   \<and> fst (Get (Set (NewCache 16 0 0) ''k'' (Some (7::nat)) 50 1000 1001) ''k'' 1060)
       = (None, Some ErrCacheIsOut)
   \<and> fst (IsExist (snd (Get (Set (NewCache 16 0 0) ''k'' (Some (7::nat)) 50 1000 1001) ''k'' 1060))
         ''k'') = True
   \<and> fst (Get (Set (NewCache 16 0 0) ''k'' (Some (7::nat)) 50 1000 1001) ''k'' 1050)
       = (Some 7, None)"
  using C1_Get_contract [where c = "NewCache 16 0 0 :: nat Cache" and key = "''k''" and now = 5
       and val = "\<lparr>Value = Some 7, CreatedAt = 1001, Expiration = 1050\<rparr>"]
    C1_Get_contract [where c = "Set (NewCache 16 0 0) ''k'' (Some (7::nat)) 50 1000 1001"
       and key = "''k''" and now = 1060
       and val = "\<lparr>Value = Some 7, CreatedAt = 1001, Expiration = 1050\<rparr>"]
    C1_Get_contract [where c = "Set (NewCache 16 0 0) ''k'' (Some (7::nat)) 50 1000 1001"
       and key = "''k''" and now = 1050
       and val = "\<lparr>Value = Some 7, CreatedAt = 1001, Expiration = 1050\<rparr>"]
  by (simp add: Set_def NewCache_def IsExist_def)

section \<open>Set\<close>

text \<open>
  With a default expiration of 50 ms, \<open>Set\<close> with duration 0 at clock reading 1000 stores
  \<open>Expiration = 50001000\<close>, and \<open>Get\<close> 60 ms later returns \<open>ErrCacheIsOut\<close>: a duration
  of zero is replaced by the default before the sign is looked at.
\<close>

theorem C2_zero_ttl_takes_default_counterexample:
  "sint (0 :: Duration) \<le> 0
   \<and> fst (Get (Set (NewCache 16 50000000 0) ''k'' (Some (7::nat)) 0 1000 1000) ''k'' 60001000)
       = (None, Some ErrCacheIsOut)
   \<and> fst (Get (Set (NewCache 16 50000000 0) ''k'' (Some (7::nat)) 0 1000 1000) ''k'' 60001000)
       \<noteq> (Some 7, None)"
  by (simp add: Get_def Set_def NewCache_def)

text \<open>
  C2, amended. For a duration that is strictly negative, or zero in a cache whose default
  expiration is not positive, \<open>Set\<close> followed by \<open>Get\<close> of the same key returns the stored
  value and the nil error at every clock reading of the \<open>Get\<close>.
\<close>

theorem C2_Set_nonpositive_ttl_then_Get:
  "sint ttl < 0 \<or> (ttl = 0 \<and> sint (defaultExpiration c) \<le> 0) \<Longrightarrow>
     fst (Get (Set c key val ttl now now') key later) = (val, None)"
  by (auto simp add: Get_def Set_def Let_def)

theorem C2_Set_nonpositive_ttl_then_Get_witness:
  "sint (- 1 :: Duration) < 0
   \<and> fst (Get (Set (NewCache 16 50000000 0) ''k'' (Some (7::nat)) (- 1) 1000 1000) ''k'' 60001000)
       = (Some 7, None)
   \<and> sint (defaultExpiration (NewCache 16 0 0 :: nat Cache)) \<le> 0
   \<and> fst (Get (Set (NewCache 16 0 0) ''k'' (Some (7::nat)) 0 1000 1000) ''k'' 60001000)
       = (Some 7, None)"
  using C2_Set_nonpositive_ttl_then_Get
      [of "- 1" "NewCache 16 50000000 0" "''k''" "Some (7::nat)" 1000 1000 60001000]
    C2_Set_nonpositive_ttl_then_Get
      [of 0 "NewCache 16 0 0" "''k''" "Some (7::nat)" 1000 1000 60001000]
  by (simp add: NewCache_def)

text \<open>
  A duration of \<open>2 ^ 63 - 1\<close> nanoseconds (the largest \<^verbatim>\<open>time.Duration\<close>) is strictly
  positive, yet \<open>Set\<close> at the clock reading 946684800000000000 stores the negative
  \<open>Expiration\<close> -8276687236854775809: the sum of the reading and the duration does not
  fit in an \<^verbatim>\<open>int64\<close>. The entry then counts as one that never expires.
\<close>

theorem C3_Expiration_overflow_counterexample:
  "0 < sint (9223372036854775807 :: Duration)
   \<and> fmlookup (m (Set (NewCache 16 0 0) ''k'' (Some (7::nat)) 9223372036854775807
                    946684800000000000 946684800000000001)) ''k''
       = Some \<lparr>Value = Some 7, CreatedAt = 946684800000000001,
                Expiration = - 8276687236854775809\<rparr>
   \<and> sint (- 8276687236854775809 :: int64)
       \<noteq> sint (946684800000000000 :: int64) + sint (9223372036854775807 :: Duration)
   \<and> sint (- 8276687236854775809 :: int64) < 0
   \<and> fst (Get (Set (NewCache 16 0 0) ''k'' (Some (7::nat)) 9223372036854775807
                 946684800000000000 946684800000000001) ''k'' 9223372036854775807)
       = (Some 7, None)"
  by (simp add: Set_def NewCache_def Get_def)

text \<open>
  C3, amended. Let \<open>eff\<close> be the default expiration when the duration is zero and the
  duration itself otherwise. After \<open>Set\<close> the key holds exactly the new entry. When
  \<open>eff\<close> is strictly positive and the sum of the clock reading and \<open>eff\<close> fits in an
  \<^verbatim>\<open>int64\<close> (it is below \<open>2 ^ 63\<close>), the entry's \<open>Expiration\<close> is that sum; when the sum
  does not fit, \<open>Expiration\<close> is the sum less \<open>2 ^ 64\<close>, a negative number; when \<open>eff\<close> is
  not positive, \<open>Expiration\<close> is zero. Every other key keeps its entry, the key set only
  gains the key, and \<^verbatim>\<open>len\<close> does not grow when the key was already there: the previous
  entry is replaced.
\<close>

theorem C3_Set_stores_entry:
  "let eff = (if ttl = 0 then defaultExpiration c else ttl);
       expiration = (if 0 < sint eff then now + eff else 0);
       c' = Set c key val ttl now now'
   in fmlookup (m c') key = Some \<lparr>Value = val, CreatedAt = now', Expiration = expiration\<rparr>
      \<and> (0 < sint eff \<and> sint now + sint eff < 2 ^ 63 \<longrightarrow> sint expiration = sint now + sint eff)
      \<and> (0 < sint eff \<and> 2 ^ 63 \<le> sint now + sint eff \<longrightarrow>
           sint expiration = sint now + sint eff - 2 ^ 64 \<and> sint expiration < 0)
      \<and> (\<not> 0 < sint eff \<longrightarrow> expiration = 0)
      \<and> (\<forall>k. k \<noteq> key \<longrightarrow> fmlookup (m c') k = fmlookup (m c) k)
      \<and> fmdom (m c') = finsert key (fmdom (m c))
      \<and> (key |\<in>| fmdom (m c) \<longrightarrow> len (m c') = len (m c))
      \<and> (key |\<notin>| fmdom (m c) \<longrightarrow> len (m c') = len (m c) + 1)
      \<and> defaultExpiration c' = defaultExpiration c
      \<and> cleanupInterval c' = cleanupInterval c"
proof -
  have fits: "sint (now + eff) = sint now + sint eff"
    if "0 < sint eff" and "sint now + sint eff < 2 ^ 63" for eff :: int64
  proof (rule sint_add_exact)
    have "- (2 ^ 63) \<le> sint now"
      using sint_ge [of now] by simp
    then show "- (2 ^ 63) \<le> sint now + sint eff"
      using that(1) by linarith
    show "sint now + sint eff < 2 ^ 63"
      by (rule that(2))
  qed
  have wraps: "sint (now + eff) = sint now + sint eff - 2 ^ 64"
    if "2 ^ 63 \<le> sint now + sint eff" for eff :: int64
    using that by (rule sint_add_wrapped)
  have below: "sint now + sint eff < 2 ^ 64" for eff :: int64
  proof -
    have "sint now < 2 ^ 63" and "sint eff < 2 ^ 63"
      using sint_lt [of now] sint_lt [of eff] by simp_all
    then show ?thesis
      by simp
  qed
  show ?thesis
    using fits wraps below by (simp add: Set_def Let_def len_fmupd_present len_fmupd_absent)
qed

theorem C3_Set_stores_entry_witness:
  "fmlookup (m (Set (NewCache 16 50 0) ''k'' (Some (7::nat)) 0 1000 1001)) ''k''
     = Some \<lparr>Value = Some 7, CreatedAt = 1001, Expiration = 1050\<rparr>
   \<and> fmlookup (m (Set (Set (NewCache 16 50 0) ''k'' (Some (7::nat)) 0 1000 1001)
                    ''k'' (Some 8) (- 1) 2000 2001)) ''k''
     = Some \<lparr>Value = Some 8, CreatedAt = 2001, Expiration = 0\<rparr>
   \<and> fmlookup (m (Set (Set (NewCache 16 50 0) ''k'' (Some (7::nat)) 0 1000 1001)
                    ''j'' (Some 8) 20 2000 2001)) ''k''
     = Some \<lparr>Value = Some 7, CreatedAt = 1001, Expiration = 1050\<rparr>
   \<and> len (m (Set (Set (NewCache 16 50 0) ''k'' (Some (7::nat)) 0 1000 1001)
               ''k'' (Some 8) (- 1) 2000 2001)) = 1
   \<and> len (m (Set (Set (NewCache 16 50 0) ''k'' (Some (7::nat)) 0 1000 1001)
               ''j'' (Some 8) 20 2000 2001)) = 2
   \<and> (2 :: int) ^ 63 \<le> sint (946684800000000000 :: int64) + sint (9223372036854775807 :: Duration)
   \<and> fmlookup (m (Set (NewCache 16 50 0) ''k'' (Some (7::nat)) 9223372036854775807
                    946684800000000000 946684800000000001)) ''k''
     = Some \<lparr>Value = Some 7, CreatedAt = 946684800000000001,
              Expiration = - 8276687236854775809\<rparr>"
proof -
  let ?c0 = "NewCache 16 50 0 :: nat Cache"
  let ?c1 = "Set ?c0 ''k'' (Some 7) 0 1000 1001"
  show ?thesis
    using C3_Set_stores_entry [where ttl = 0 and c = ?c0 and key = "''k''" and val = "Some 7"
          and now = 1000 and now' = 1001]
      C3_Set_stores_entry [where ttl = "- 1" and c = ?c1 and key = "''k''" and val = "Some 8"
          and now = 2000 and now' = 2001]
      C3_Set_stores_entry [where ttl = 20 and c = ?c1 and key = "''j''" and val = "Some 8"
          and now = 2000 and now' = 2001]
      C3_Set_stores_entry [where ttl = 9223372036854775807 and c = ?c0 and key = "''k''"
          and val = "Some 7" and now = 946684800000000000 and now' = 946684800000000001]
    by (simp add: Let_def NewCache_def len_def fcard_finsert_if)
qed

section \<open>Expiration\<close>

text \<open>
  C4. An entry whose \<open>Expiration\<close> is zero or negative is never reported expired,
  whatever the clock reads: \<open>Get\<close> returns its payload with the nil error, \<open>Expire\<close>
  reports false, the scan of \<open>expiredKeys\<close> never collects its key, and a pass of the
  sweep leaves the entry in the map.
\<close>

theorem C4_nonpositive_Expiration_never_expires:
  "fmlookup (m c) key = Some e \<Longrightarrow> sint (Expiration e) \<le> 0 \<Longrightarrow>
     fst (Get c key now) = (Value e, None)
   \<and> fst (Expire c key now) = (False, None)
   \<and> key \<notin> set (fst (expiredKeys c scan))
   \<and> fmlookup (m (snd (GC_body c scan))) key = Some e"
proof -
  assume present: "fmlookup (m c) key = Some e" and np: "sint (Expiration e) \<le> 0"
  have not_collected: "key \<notin> set (expiredKeys_loop c scan [])"
    using present np by (auto simp: set_expiredKeys_loop expired_def)
  have "fst (Get c key now) = (Value e, None)"
    using present np by (simp add: Get_def)
  moreover have "fst (Expire c key now) = (False, None)"
    using present np by (simp add: Expire_def)
  moreover have "key \<notin> set (fst (expiredKeys c scan))"
    using not_collected by (simp add: expiredKeys_def)
  moreover have "fmlookup (m (snd (GC_body c scan))) key = Some e"
    using present not_collected by (rule GC_body_keeps)
  ultimately show ?thesis by simp
qed

theorem C4_nonpositive_Expiration_never_expires_witness:
  "fmlookup (m (Set (NewCache 16 0 30) ''k'' (Some (7::nat)) (- 1) 1000 1001)) ''k''
     = Some \<lparr>Value = Some 7, CreatedAt = 1001, Expiration = 0\<rparr>
   \<and> sint (Expiration \<lparr>Value = Some (7::nat), CreatedAt = 1001, Expiration = 0\<rparr>) \<le> 0
   \<and> fst (Get (Set (NewCache 16 0 30) ''k'' (Some (7::nat)) (- 1) 1000 1001) ''k'' 9000000000)
       = (Some 7, None)
   \<and> fst (Expire (Set (NewCache 16 0 30) ''k'' (Some (7::nat)) (- 1) 1000 1001) ''k'' 9000000000)
       = (False, None)
   \<and> ''k'' \<notin> set (fst (expiredKeys (Set (NewCache 16 0 30) ''k'' (Some (7::nat)) (- 1) 1000 1001)
                          [(''k'', 9000000000)]))"
proof -
  let ?c = "Set (NewCache 16 0 30) ''k'' (Some (7::nat)) (- 1) 1000 1001"
  let ?e = "\<lparr>Value = Some (7::nat), CreatedAt = 1001, Expiration = 0\<rparr>"
  have present: "fmlookup (m ?c) ''k'' = Some ?e"
    by (simp add: Set_def NewCache_def)
  have np: "sint (Expiration ?e) \<le> 0"
    by simp
  show ?thesis
    using present np
      C4_nonpositive_Expiration_never_expires
        [OF present np, of 9000000000 "[(''k'', 9000000000)]"]
    by simp
qed

text \<open>
  C6. \<open>Expire\<close> on an absent key returns \<open>ErrKeyNotFound\<close>. On a present key it returns
  the nil error, and reports true exactly when the entry's \<open>Expiration\<close> is strictly
  positive and the clock reading is strictly past it.
\<close>

theorem C6_Expire_contract:
  "(fmlookup (m c) key = None \<longrightarrow> fst (Expire c key now) = (False, Some ErrKeyNotFound))
   \<and> (fmlookup (m c) key = Some e \<longrightarrow>
        snd (fst (Expire c key now)) = None
      \<and> (fst (fst (Expire c key now)) \<longleftrightarrow>
           0 < sint (Expiration e) \<and> sint (Expiration e) < sint now))"
  by (auto simp: Expire_def)

theorem C6_Expire_contract_witness:
  "fst (Expire (NewCache 16 0 0 :: nat Cache) ''k'' 5) = (False, Some ErrKeyNotFound)
   \<and> fst (Expire (Set (NewCache 16 0 0) ''k'' (Some (7::nat)) 50 1000 1001) ''k'' 1051)
       = (True, None)
   \<and> fst (Expire (Set (NewCache 16 0 0) ''k'' (Some (7::nat)) 50 1000 1001) ''k'' 1050)
       = (False, None)
   \<and> fst (Expire (Set (NewCache 16 0 0) ''k'' (Some (7::nat)) (- 5) 1000 1001) ''k'' 1050)
       = (False, None)"
proof -
  let ?c0 = "NewCache 16 0 0 :: nat Cache"
  have absent: "fmlookup (m ?c0) ''k'' = None"
    by (simp add: NewCache_def)
  have p1: "fmlookup (m (Set ?c0 ''k'' (Some 7) 50 1000 1001)) ''k''
      = Some \<lparr>Value = Some 7, CreatedAt = 1001, Expiration = 1050\<rparr>"
    by (simp add: Set_def NewCache_def)
  have p2: "fmlookup (m (Set ?c0 ''k'' (Some 7) (- 5) 1000 1001)) ''k''
      = Some \<lparr>Value = Some 7, CreatedAt = 1001, Expiration = 0\<rparr>"
    by (simp add: Set_def NewCache_def)
  show ?thesis
    using absent p1 p2
      C6_Expire_contract [where c = ?c0 and key = "''k''" and now = 5]
      C6_Expire_contract [where c = "Set ?c0 ''k'' (Some 7) 50 1000 1001" and key = "''k''"
        and now = 1051 and e = "\<lparr>Value = Some 7, CreatedAt = 1001, Expiration = 1050\<rparr>"]
      C6_Expire_contract [where c = "Set ?c0 ''k'' (Some 7) 50 1000 1001" and key = "''k''"
        and now = 1050 and e = "\<lparr>Value = Some 7, CreatedAt = 1001, Expiration = 1050\<rparr>"]
      C6_Expire_contract [where c = "Set ?c0 ''k'' (Some 7) (- 5) 1000 1001" and key = "''k''"
        and now = 1050 and e = "\<lparr>Value = Some 7, CreatedAt = 1001, Expiration = 0\<rparr>"]
    by (simp add: prod_eq_iff)
qed

section \<open>The sweep\<close>

text \<open>
  C5. One pass of the sweep as a step on the cache. If the map is empty when the timer
  fires, the pass returns from \<open>GC\<close> with the cache untouched, and from then on the cache
  is what the program's own calls make of it: later firings of the timer remove nothing.
  Otherwise, for a scan that visits every key of the map exactly once, the pass keeps
  running and leaves the cache with exactly the entries that were not expired at the
  clock reading the scan took for them; those entries and the configuration are unchanged.
  \<open>GC\<close> itself, started on such a cache, makes that pass at the first firing of the timer
  and goes on, still running, from the cache the pass left.
\<close>

theorem C5_sweep_iteration:
  "(len (m c) = 0 \<longrightarrow>
       GC_body c scan = (Stopped, c)
     \<and> GC c (Tick scan # es) = (Stopped, fold call (filter (\<lambda>e. \<not> is_Tick e) es) c))
   \<and> (len (m c) \<noteq> 0 \<and> proper_scan c scan \<longrightarrow>
       GC_body c scan = (Running, c\<lparr>m := fmfilter (\<lambda>k. \<not> expired_at_scan c scan k) (m c)\<rparr>)
     \<and> GC c (Tick scan # es)
         = GC_loop (Running, c\<lparr>m := fmfilter (\<lambda>k. \<not> expired_at_scan c scan k) (m c)\<rparr>) es)"
proof (intro conjI impI)
  assume "len (m c) = 0"
  then show stop: "GC_body c scan = (Stopped, c)"
    by (simp add: GC_body_def)
  then show "GC c (Tick scan # es) = (Stopped, fold call (filter (\<lambda>e. \<not> is_Tick e) es) c)"
    by (simp add: GC_def GC_loop_Stopped)
next
  assume "len (m c) \<noteq> 0 \<and> proper_scan c scan"
  then show pass: "GC_body c scan =
      (Running, c\<lparr>m := fmfilter (\<lambda>k. \<not> expired_at_scan c scan k) (m c)\<rparr>)"
    by (simp add: GC_body_nonempty proper_scan_def)
  then show "GC c (Tick scan # es)
      = GC_loop (Running, c\<lparr>m := fmfilter (\<lambda>k. \<not> expired_at_scan c scan k) (m c)\<rparr>) es"
    by (simp add: GC_def)
qed

text \<open>
  The witness: on an empty cache the sweep stops at the first firing; the entry set
  afterwards (expiring at 1010) is still there after a firing at 5000. On a cache holding
  \<open>a\<close> (expiring at 1010) and \<open>b\<close> (expiring at 1100), a pass scanning at 1050 and 1051
  removes \<open>a\<close> and keeps \<open>b\<close>, and \<open>GC\<close> started on that cache has done so after the first
  firing and is still running.
\<close>

theorem C5_sweep_iteration_witness:
  "len (m (NewCache 16 0 30 :: nat Cache)) = 0
   \<and> fst (GC (NewCache 16 0 30 :: nat Cache)
            [Tick [], CallSet ''k'' (Some 7) 10 1000 1001, Tick [(''k'', 5000)]]) = Stopped
   \<and> fmlookup (m (snd (GC (NewCache 16 0 30 :: nat Cache)
            [Tick [], CallSet ''k'' (Some 7) 10 1000 1001, Tick [(''k'', 5000)]]))) ''k''
       = Some \<lparr>Value = Some 7, CreatedAt = 1001, Expiration = 1010\<rparr>
   \<and> proper_scan (Set (Set (NewCache 16 0 30) ''a'' (Some (11::nat)) 10 1000 1001)
                    ''b'' (Some 22) 100 1000 1001) [(''b'', 1050), (''a'', 1051)]
   \<and> fst (GC_body (Set (Set (NewCache 16 0 30) ''a'' (Some (11::nat)) 10 1000 1001)
                    ''b'' (Some 22) 100 1000 1001) [(''b'', 1050), (''a'', 1051)]) = Running
   \<and> fmlookup (m (snd (GC_body (Set (Set (NewCache 16 0 30) ''a'' (Some (11::nat)) 10 1000 1001)
                    ''b'' (Some 22) 100 1000 1001) [(''b'', 1050), (''a'', 1051)]))) ''a'' = None
   \<and> fmlookup (m (snd (GC_body (Set (Set (NewCache 16 0 30) ''a'' (Some (11::nat)) 10 1000 1001)
                    ''b'' (Some 22) 100 1000 1001) [(''b'', 1050), (''a'', 1051)]))) ''b''
       = Some \<lparr>Value = Some 22, CreatedAt = 1001, Expiration = 1100\<rparr>
   \<and> fst (GC (Set (Set (NewCache 16 0 30) ''a'' (Some (11::nat)) 10 1000 1001)
                    ''b'' (Some 22) 100 1000 1001) [Tick [(''b'', 1050), (''a'', 1051)]]) = Running
   \<and> fmlookup (m (snd (GC (Set (Set (NewCache 16 0 30) ''a'' (Some (11::nat)) 10 1000 1001)
                    ''b'' (Some 22) 100 1000 1001) [Tick [(''b'', 1050), (''a'', 1051)]]))) ''a''
       = None
   \<and> fmlookup (m (snd (GC (Set (Set (NewCache 16 0 30) ''a'' (Some (11::nat)) 10 1000 1001)
                    ''b'' (Some 22) 100 1000 1001) [Tick [(''b'', 1050), (''a'', 1051)]]))) ''b''
       = Some \<lparr>Value = Some 22, CreatedAt = 1001, Expiration = 1100\<rparr>"
proof -
  let ?c0 = "NewCache 16 0 30 :: nat Cache"
  let ?c2 = "Set (Set ?c0 ''a'' (Some 11) 10 1000 1001) ''b'' (Some 22) 100 1000 1001"
  let ?scan = "[(''b'', 1050), (''a'', 1051)] :: (string \<times> int64) list"
  have empty: "len (m ?c0) = 0"
    by (simp add: NewCache_def len_def)
  have c2: "m ?c2 = fmupd ''b'' \<lparr>Value = Some 22, CreatedAt = 1001, Expiration = 1100\<rparr>
                     (fmupd ''a'' \<lparr>Value = Some 11, CreatedAt = 1001, Expiration = 1010\<rparr> fmempty)"
    by (simp add: Set_def NewCache_def)
  have nonempty: "len (m ?c2) \<noteq> 0"
    by (simp add: c2 len_def)
  have proper: "proper_scan ?c2 ?scan"
    by (simp add: proper_scan_def c2)
  have stopped: "GC ?c0 [Tick [], CallSet ''k'' (Some 7) 10 1000 1001, Tick [(''k'', 5000)]]
      = (Stopped, Set ?c0 ''k'' (Some 7) 10 1000 1001)"
    using empty C5_sweep_iteration [where c = ?c0 and scan = "[]"
        and es = "[CallSet ''k'' (Some 7) 10 1000 1001, Tick [(''k'', 5000)]]"]
    by simp
  have pass: "GC_body ?c2 ?scan =
      (Running, ?c2\<lparr>m := fmfilter (\<lambda>k. \<not> expired_at_scan ?c2 ?scan k) (m ?c2)\<rparr>)"
    using nonempty proper C5_sweep_iteration [where c = ?c2 and scan = ?scan]
    by simp
  have sweep: "GC ?c2 [Tick ?scan] =
      (Running, ?c2\<lparr>m := fmfilter (\<lambda>k. \<not> expired_at_scan ?c2 ?scan k) (m ?c2)\<rparr>)"
    using nonempty proper C5_sweep_iteration [where c = ?c2 and scan = ?scan and es = "[]"]
    by simp
  have "fmlookup (m (Set ?c0 ''k'' (Some 7) 10 1000 1001)) ''k''
      = Some \<lparr>Value = Some 7, CreatedAt = 1001, Expiration = 1010\<rparr>"
    by (simp add: Set_def NewCache_def)
  moreover have "expired_at_scan ?c2 ?scan ''a''"
    by (simp add: expired_at_scan_def expired_def c2)
  moreover have "\<not> expired_at_scan ?c2 ?scan ''b''"
    by (simp add: expired_at_scan_def expired_def c2)
  ultimately show ?thesis
    using empty proper stopped pass sweep by (simp add: c2)
qed

section \<open>GetMulti\<close>

text \<open>
  C7. \<open>GetMulti\<close> returns a list as long as its input, and position \<open>i\<close> holds the
  payload of the \<open>i\<close>-th key when that key is present and fresh at the clock reading of
  its lookup, and nil otherwise. The result carries no error.
\<close>

theorem C7_GetMulti_positions:
  "length (fst (GetMulti c keys)) = length keys
   \<and> (\<forall>i < length keys.
        fst (GetMulti c keys) ! i = fresh_payload c (fst (keys ! i)) (snd (keys ! i)))"
  by (simp add: GetMulti_def GetMulti_loop_eq case_prod_unfold)

theorem C7_GetMulti_positions_witness:
  "fst (GetMulti (Set (Set (NewCache 16 0 0) ''k2'' (Some (7::nat)) 50 1000 1001)
                   ''k4'' (Some 9) 5 1000 1001)
         [(''k1'', 1010), (''k2'', 1020), (''k3'', 1030), (''k4'', 1040)])
     = [None, Some 7, None, None]"
proof -
  let ?c = "Set (Set (NewCache 16 0 0) ''k2'' (Some (7::nat)) 50 1000 1001)
              ''k4'' (Some 9) 5 1000 1001"
  let ?keys = "[(''k1'', 1010), (''k2'', 1020), (''k3'', 1030), (''k4'', 1040)]
                 :: (string \<times> int64) list"
  have c: "m ?c = fmupd ''k4'' \<lparr>Value = Some 9, CreatedAt = 1001, Expiration = 1005\<rparr>
                    (fmupd ''k2'' \<lparr>Value = Some 7, CreatedAt = 1001, Expiration = 1050\<rparr> fmempty)"
    by (simp add: Set_def NewCache_def)
  have len4: "length (fst (GetMulti ?c ?keys)) = 4"
    using C7_GetMulti_positions [of ?c ?keys] by simp
  have pos: "fst (GetMulti ?c ?keys) ! i = fresh_payload ?c (fst (?keys ! i)) (snd (?keys ! i))"
    if "i < 4" for i
    using that C7_GetMulti_positions [of ?c ?keys] by simp
  have p0: "fst (GetMulti ?c ?keys) ! 0 = None"
    using pos [of 0] by (simp add: fresh_payload_def expired_def c)
  have p1: "fst (GetMulti ?c ?keys) ! 1 = Some 7"
    using pos [of 1] by (simp add: fresh_payload_def expired_def c)
  have p2: "fst (GetMulti ?c ?keys) ! 2 = None"
    using pos [of 2] by (simp add: fresh_payload_def expired_def c)
  have p3: "fst (GetMulti ?c ?keys) ! 3 = None"
    using pos [of 3] by (simp add: fresh_payload_def expired_def c)
  show ?thesis
  proof (rule nth_equalityI)
    show "length (fst (GetMulti ?c ?keys)) = length [None, Some (7::nat), None, None]"
      using len4 by simp
  next
    fix i
    assume "i < length (fst (GetMulti ?c ?keys))"
    then have "i < 4"
      using len4 by simp
    then consider "i = 0" | "i = 1" | "i = 2" | "i = 3"
      by linarith
    then show "fst (GetMulti ?c ?keys) ! i = [None, Some 7, None, None] ! i"
    proof cases
      case 1
      then show ?thesis using p0 by simp
    next
      case 2
      then show ?thesis using p1 by simp
    next
      case 3
      then show ?thesis using p2 by simp
    next
      case 4
      then show ?thesis using p3 by simp
    qed
  qed
qed

section \<open>Delete\<close>

text \<open>
  C8. \<open>Delete\<close> of a present key returns the nil error and removes the entry:
  afterwards \<open>IsExist\<close> answers false and \<open>Get\<close> returns \<open>ErrKeyNotFound\<close>. \<open>Delete\<close> of
  an absent key returns \<open>ErrKeyNotFound\<close> and the cache as it was. In both cases every
  other key keeps its entry and the configuration is unchanged.
\<close>

theorem C8_Delete_contract:
  "(fmlookup (m c) key = Some e \<longrightarrow>
       fst (Delete c key) = None
     \<and> fmlookup (m (snd (Delete c key))) key = None
     \<and> fst (IsExist (snd (Delete c key)) key) = False
     \<and> fst (Get (snd (Delete c key)) key now) = (None, Some ErrKeyNotFound))
   \<and> (fmlookup (m c) key = None \<longrightarrow>
       fst (Delete c key) = Some ErrKeyNotFound \<and> snd (Delete c key) = c)
   \<and> (\<forall>k. k \<noteq> key \<longrightarrow> fmlookup (m (snd (Delete c key))) k = fmlookup (m c) k)
   \<and> defaultExpiration (snd (Delete c key)) = defaultExpiration c
   \<and> cleanupInterval (snd (Delete c key)) = cleanupInterval c"
  by (auto simp: Delete_def IsExist_def Get_def split: option.splits)

theorem C8_Delete_contract_witness:
  "fst (Delete (Set (Set (NewCache 16 0 0) ''a'' (Some (11::nat)) 10 1000 1001)
                 ''b'' (Some 22) 100 1000 1001) ''a'') = None
   \<and> fst (IsExist (snd (Delete (Set (Set (NewCache 16 0 0) ''a'' (Some (11::nat)) 10 1000 1001)
                 ''b'' (Some 22) 100 1000 1001) ''a'')) ''a'') = False
   \<and> fst (Get (snd (Delete (Set (Set (NewCache 16 0 0) ''a'' (Some (11::nat)) 10 1000 1001)
                 ''b'' (Some 22) 100 1000 1001) ''a'')) ''a'' 1005) = (None, Some ErrKeyNotFound)
   \<and> fmlookup (m (snd (Delete (Set (Set (NewCache 16 0 0) ''a'' (Some (11::nat)) 10 1000 1001)
                 ''b'' (Some 22) 100 1000 1001) ''a''))) ''b''
       = Some \<lparr>Value = Some 22, CreatedAt = 1001, Expiration = 1100\<rparr>
   \<and> Delete (Set (Set (NewCache 16 0 0) ''a'' (Some (11::nat)) 10 1000 1001)
                 ''b'' (Some 22) 100 1000 1001) ''z''
       = (Some ErrKeyNotFound, Set (Set (NewCache 16 0 0) ''a'' (Some (11::nat)) 10 1000 1001)
                 ''b'' (Some 22) 100 1000 1001)"
proof -
  let ?c = "Set (Set (NewCache 16 0 0) ''a'' (Some (11::nat)) 10 1000 1001)
              ''b'' (Some 22) 100 1000 1001"
  have c: "m ?c = fmupd ''b'' \<lparr>Value = Some 22, CreatedAt = 1001, Expiration = 1100\<rparr>
                    (fmupd ''a'' \<lparr>Value = Some 11, CreatedAt = 1001, Expiration = 1010\<rparr> fmempty)"
    by (simp add: Set_def NewCache_def)
  have present: "fmlookup (m ?c) ''a'' = Some \<lparr>Value = Some 11, CreatedAt = 1001, Expiration = 1010\<rparr>"
    by (simp add: c)
  have absent: "fmlookup (m ?c) ''z'' = None"
    by (simp add: c)
  have other: "''b'' \<noteq> ''a''"
    by simp
  show ?thesis
    using present absent other
      C8_Delete_contract [where c = ?c and key = "''a''" and now = 1005
        and e = "\<lparr>Value = Some 11, CreatedAt = 1001, Expiration = 1010\<rparr>"]
      C8_Delete_contract [where c = ?c and key = "''z''" and now = 1005
        and e = "\<lparr>Value = Some 11, CreatedAt = 1001, Expiration = 1010\<rparr>"]
    by (simp add: prod_eq_iff c)
qed

section \<open>FlushAll\<close>

text \<open>
  C9. After \<open>FlushAll\<close> the map is empty: for every key, also one just stored by \<open>Set\<close>,
  \<open>IsExist\<close> answers false and \<open>Get\<close> returns \<open>ErrKeyNotFound\<close>; the default expiration
  and the cleanup interval are what they were.
\<close>

theorem C9_FlushAll_discards:
  "fst (IsExist (FlushAll c) k) = False
   \<and> fst (Get (FlushAll c) k now) = (None, Some ErrKeyNotFound)
   \<and> fst (IsExist (FlushAll (Set c k val ttl t t')) k) = False
   \<and> fst (Get (FlushAll (Set c k val ttl t t')) k now) = (None, Some ErrKeyNotFound)
   \<and> m (FlushAll c) = fmempty
   \<and> defaultExpiration (FlushAll c) = defaultExpiration c
   \<and> cleanupInterval (FlushAll c) = cleanupInterval c"
  by (simp add: FlushAll_def IsExist_def Get_def)

section \<open>Reads leave the cache as it was\<close>

text \<open>
  C10. \<open>Get\<close>, \<open>GetMulti\<close>, \<open>IsExist\<close> and \<open>Expire\<close> return the cache they were given:
  every entry and both configuration fields are the same after the call, whether the
  call succeeded or returned an error.
\<close>

theorem C10_reads_frame:
  "snd (Get c key now) = c
   \<and> snd (GetMulti c keys) = c
   \<and> snd (IsExist c key) = c
   \<and> snd (Expire c key now) = c"
  by (simp add: Get_frame GetMulti_def GetMulti_loop_eq IsExist_def Expire_def
      split: option.splits)

end
